theory Spec2Isabelle
  imports Complex_Main
begin

section \<open>Physical constants\<close>

text \<open>
  The module ryplanck reads the fundamental constants from the library
  \<^verbatim>\<open>scipy.constants\<close> (imported as \<^verbatim>\<open>const\<close>). Their values are
  not part of the repository, so they are a parameter of the model: a record with the
  four attributes that the planck constants class reads. The table and the exitance
  evaluators compute over the real numbers, without rounding; the derivative
  evaluators, whose intermediate results leave the range of doubles, compute with the
  range arithmetic defined before them.
\<close>

record scipy_constants =
  const_h :: real
  const_c :: real
  const_k :: real
  const_sigma :: real

text \<open>
  The attributes of \<^verbatim>\<open>class PlanckConstants\<close> that are computed in closed form.
  The attributes a2..a5 and wel..wqf come out of the library root finder
  \<^verbatim>\<open>scipy.optimize.brentq\<close>; no evaluator reads them and they are left out.
\<close>

record PlanckConstants =
  c1em :: real
  c1el :: real
  c1en :: real
  c1ef :: real
  c1qm :: real
  c1ql :: real
  c1qn :: real
  c1nf :: real
  c2m :: real
  c2l :: real
  c2n :: real
  c2f :: real
  sigmae :: real
  zeta3 :: real
  sigmaq :: real

definition PlanckConstants_init :: "scipy_constants \<Rightarrow> PlanckConstants" where
  "PlanckConstants_init sc =
    (let v_c1em = 2 * pi * const_h sc * const_c sc * const_c sc;
         v_c1qm = 2 * pi * const_c sc;
         v_c2m = const_h sc * const_c sc / const_k sc;
         v_zeta3 = 1.2020569031595942853
     in \<lparr> c1em = v_c1em,
          c1el = v_c1em * (10 ^ 6) ^ (5 - 1),
          c1en = v_c1em * 100 ^ 3 * 100,
          c1ef = 2 * pi * const_h sc / (const_c sc * const_c sc),
          c1qm = v_c1qm,
          c1ql = v_c1qm * (10 ^ 6) ^ (4 - 1),
          c1qn = v_c1qm * 100 ^ 2 * 100,
          c1nf = 2 * pi / (const_c sc * const_c sc),
          c2m = v_c2m,
          c2l = v_c2m * 10 ^ 6,
          c2n = v_c2m * 10 ^ 2,
          c2f = const_h sc / const_k sc,
          sigmae = const_sigma sc,
          zeta3 = v_zeta3,
          sigmaq = 4 * pi * v_zeta3 * const_k sc ^ 3
                   / (const_h sc ^ 3 * const_c sc ^ 2) \<rparr>)"

text \<open>The module-level object \<^verbatim>\<open>pconst = PlanckConstants()\<close>.\<close>

definition pconst :: "scipy_constants \<Rightarrow> PlanckConstants" where
  "pconst sc = PlanckConstants_init sc"

text \<open>
  The constants are physical quantities; the Python division by \<^verbatim>\<open>const.k\<close> and
  by \<^verbatim>\<open>const.c\<close> raises on zero, so the model of the constants is the code only
  for non-zero (and, physically, positive) values.
\<close>

definition valid_constants :: "scipy_constants \<Rightarrow> bool" where
  "valid_constants sc \<longleftrightarrow>
     0 < const_h sc \<and> 0 < const_c sc \<and> 0 < const_k sc \<and> 0 < const_sigma sc"

text \<open>
  The CODATA 2010 values, which the module's documentation names as the ones
  \<^verbatim>\<open>scipy.constants\<close> provides. They are used for concrete evaluations only.
\<close>

definition codata2010 :: scipy_constants where
  "codata2010 =
     \<lparr> const_h = 6.62606957 / 10 ^ 34,
       const_c = 299792458,
       const_k = 1.3806488 / 10 ^ 23,
       const_sigma = 5.670373 / 10 ^ 8 \<rparr>"

text \<open>\<^verbatim>\<open>explimit = 709.7\<close>\<close>

definition explimit :: real where
  "explimit = 709.7"

section \<open>Stefan-Boltzmann\<close>

text \<open>
  \<^verbatim>\<open>stefanboltzman(temperature, type)\<close>: a dictionary of two lambdas, read with
  \<^verbatim>\<open>get\<close> and the default \<^verbatim>\<open>lambda temperature: -1\<close>, then applied to the
  temperature.
\<close>

definition stefanboltzman :: "scipy_constants \<Rightarrow> real \<Rightarrow> string \<Rightarrow> real" where
  "stefanboltzman sc temperature ty =
     (case map_of
        [(''e'', \<lambda>temperature. sigmae (pconst sc) * temperature ^ 4),
         (''q'', \<lambda>temperature. sigmaq (pconst sc) * temperature ^ 3)] ty of
        Some f \<Rightarrow> f temperature
      | None \<Rightarrow> (\<lambda>temperature. - 1) temperature)"

section \<open>Python values, arrays and errors\<close>

text \<open>
  The arguments of the evaluators are dynamically typed: a Python number, a Python
  list of numbers, a numpy scalar (what indexing an array gives, as in
  \<^verbatim>\<open>planckel(wavelen[0], 300)\<close>), or a numpy array. Arrays are of rank 1
  (\<^verbatim>\<open>np.array[N,]\<close> in the documentation of every function).
\<close>

datatype pyval = PyFloat real | PyList "real list" | NpFloat real | NdArray "real list"

text \<open>
  A returned value is a bare number or a numpy array, which is a shape and its
  elements in row-major order. The type of the elements is a parameter: the exitance
  evaluators compute with real numbers, the derivative evaluators with the values of
  double arithmetic defined further down.
\<close>

datatype 'a ndresult = RScalar 'a | NdArr "nat list" "'a list"

datatype pyerror = AttributeError | ValueError | IndexError | KeyError

text \<open>The shape and the rank of a result (a bare number has rank 0).\<close>

fun shape :: "'a ndresult \<Rightarrow> nat list" where
  "shape (RScalar v) = []"
| "shape (NdArr shp d) = shp"

definition ndim :: "'a ndresult \<Rightarrow> nat" where
  "ndim r = length (shape r)"

text \<open>
  Reading a result at spectral index \<open>i\<close> and temperature index \<open>j\<close>: the number
  itself, \<^verbatim>\<open>r[i]\<close> for rank 1 and \<^verbatim>\<open>r[i, j]\<close> for rank 2.
\<close>

fun result_at :: "('a::zero) ndresult \<Rightarrow> nat \<Rightarrow> nat \<Rightarrow> 'a" where
  "result_at (RScalar v) i j = v"
| "result_at (NdArr [n] d) i j = d ! i"
| "result_at (NdArr [n, m] d) i j = d ! (i * m + j)"
| "result_at (NdArr shp d) i j = 0"

text \<open>\<^verbatim>\<open>numpy.array(x, copy=False, ndmin=1)\<close>: the elements of a rank-1 array.\<close>

fun np_array :: "pyval \<Rightarrow> real list" where
  "np_array (PyFloat x) = [x]"
| "np_array (PyList xs) = xs"
| "np_array (NpFloat x) = [x]"
| "np_array (NdArray xs) = xs"

text \<open>
  \<^verbatim>\<open>numpy.meshgrid(x, y)\<close> for rank-1 \<open>x\<close> and \<open>y\<close>: two grids of
  \<open>length y\<close> rows and \<open>length x\<close> columns; every row of the first is \<open>x\<close>, row
  \<open>j\<close> of the second repeats \<open>y ! j\<close>. \<^verbatim>\<open>numpy.ravel\<close> lays the rows end to end.
\<close>

definition meshgrid :: "real list \<Rightarrow> real list \<Rightarrow> real list list \<times> real list list" where
  "meshgrid x y = (replicate (length y) x, map (\<lambda>t. replicate (length x) t) y)"

definition ravel :: "real list list \<Rightarrow> real list" where
  "ravel g = concat g"

text \<open>\<^verbatim>\<open>numpy.where(cond, a, b)\<close> with an array \<open>a\<close> and a number \<open>b\<close>.\<close>

definition np_where :: "bool list \<Rightarrow> real list \<Rightarrow> real \<Rightarrow> real list" where
  "np_where cond a b = map2 (\<lambda>c v. if c then v else b) cond a"

text \<open>
  \<^verbatim>\<open>a.reshape(n,)\<close> and \<^verbatim>\<open>a.reshape(m, -1)\<close> of a rank-1 array, and the
  transpose \<^verbatim>\<open>.T\<close> of a rank-2 array. A reshape raises ValueError when the sizes do
  not fit.
\<close>

definition reshape1 :: "nat \<Rightarrow> 'a list \<Rightarrow> pyerror + 'a ndresult" where
  "reshape1 n a = (if length a = n then Inr (NdArr [n] a) else Inl ValueError)"

definition reshape2 :: "nat \<Rightarrow> 'a list \<Rightarrow> pyerror + 'a ndresult" where
  "reshape2 m a =
     (if 0 < m \<and> length a mod m = 0 then Inr (NdArr [m, length a div m] a)
      else Inl ValueError)"

fun transposed :: "'a ndresult \<Rightarrow> 'a ndresult" where
  "transposed (NdArr [m, n] d) =
     NdArr [n, m] (map (\<lambda>p. d ! ((p mod m) * n + p div m)) [0..<n * m])"
| "transposed r = r"

text \<open>
  The closing block of every evaluator, the same text in all twelve:
  \<^verbatim>\<open>
    if tempIn.shape[0] == 1 and specIn.shape[0] == 1:
        rtnVal = planckA[0]
    elif tempIn.shape[0] == 1 and specIn.shape[0] != 1:
        rtnVal = planckA.reshape(specIn.shape[0],)
    elif tempIn.shape[0] != 1 and specIn.shape[0] == 1:
        rtnVal = planckA.reshape(specIn.shape[0],-1)
    else:
        rtnVal = planckA.reshape(tempIn.shape[0],-1).T
  \<close>
\<close>

definition unflatten :: "real list \<Rightarrow> real list \<Rightarrow> 'a list \<Rightarrow> pyerror + 'a ndresult" where
  "unflatten tempIn specIn planckA =
     (if length tempIn = 1 \<and> length specIn = 1 then
        (case planckA of [] \<Rightarrow> Inl IndexError | v # _ \<Rightarrow> Inr (RScalar v))
      else if length tempIn = 1 \<and> length specIn \<noteq> 1 then
        reshape1 (length specIn) planckA
      else if length tempIn \<noteq> 1 \<and> length specIn = 1 then
        reshape2 (length specIn) planckA
      else
        map_sum id transposed (reshape2 (length tempIn) planckA))"

text \<open>
  The frame shared by the twelve evaluators: both arguments become rank-1 arrays, the
  grid of all pairs is flattened, the body of the evaluator works on the two flat
  arrays, and the flat result is given its shape. The body returns the flat result
  together with the arrays that it handed to \<^verbatim>\<open>numpy.exp\<close>, in call order, so that
  the arguments of the exponential can be observed.
\<close>

type_synonym ('a, 'b) flat_body = "real list \<Rightarrow> real list \<Rightarrow> 'a list \<times> 'b list"

definition on_grid ::
  "('a, 'b) flat_body \<Rightarrow> pyval \<Rightarrow> pyval \<Rightarrow> (pyerror + 'a ndresult) \<times> 'b list" where
  "on_grid body spectral temperature =
     (let tempIn = np_array temperature;
          specIn = np_array spectral;
          (specgrid, tempgrid) = meshgrid specIn tempIn;
          spec = ravel specgrid;
          temp = ravel tempgrid;
          (planckA, exp_args) = body spec temp
      in (unflatten tempIn specIn planckA, exp_args))"

text \<open>\<^verbatim>\<open>numpy.exp(a)\<close>: the exponentials, and the argument as the record of the call.\<close>

definition np_exp :: "real list \<Rightarrow> real list \<times> real list" where
  "np_exp a = (map exp a, a)"

section \<open>The six exitance evaluators\<close>

text \<open>
  Each body is the middle part of the Python function of the same name, on the flat
  arrays \<open>spec\<close> and \<open>temp\<close>. The elementwise array expressions are maps. A body
  returns \<open>planckA\<close> and what \<^verbatim>\<open>numpy.exp\<close> was called with.
\<close>

definition planckef_body :: "scipy_constants \<Rightarrow> (real, real) flat_body" where
  "planckef_body sc spec temp =
     (let exP = map2 (\<lambda>s t. c2f (pconst sc) * s / t) spec temp;
          exP2 = np_where (map (\<lambda>x. x < explimit) exP) exP 1;
          (e, args) = np_exp exP2;
          p = map2 (\<lambda>s ex. c1ef (pconst sc) * s ^ 3 / (ex - 1)) spec e;
          planckA = np_where (map (\<lambda>x. x < explimit) exP) p 0
      in (planckA, args))"

definition planckel_body :: "scipy_constants \<Rightarrow> (real, real) flat_body" where
  "planckel_body sc spec temp =
     (let exP = map2 (\<lambda>s t. c2l (pconst sc) / (s * t)) spec temp;
          exP2 = np_where (map (\<lambda>x. x < explimit) exP) exP 1;
          (e, args) = np_exp exP2;
          p = map2 (\<lambda>s ex. (c1el (pconst sc) / (ex - 1)) / (s ^ 5)) spec e;
          planckA = np_where (map (\<lambda>x. x < explimit) exP) p 0
      in (planckA, args))"

text \<open>
  In \<^verbatim>\<open>plancken\<close> the clamped exponent \<open>exP2\<close> is computed and not used: the
  exponential is taken of \<open>exP\<close>.
\<close>

definition plancken_body :: "scipy_constants \<Rightarrow> (real, real) flat_body" where
  "plancken_body sc spec temp =
     (let exP = map2 (\<lambda>s t. c2n (pconst sc) * (s / t)) spec temp;
          exP2 = np_where (map (\<lambda>x. x < explimit) exP) exP 1;
          (e, args) = np_exp exP;
          p = map2 (\<lambda>s ex. c1en (pconst sc) * s ^ 3 / (ex - 1)) spec e;
          planckA = np_where (map (\<lambda>x. x < explimit) exP) p 0
      in (planckA, args))"

definition planckqf_body :: "scipy_constants \<Rightarrow> (real, real) flat_body" where
  "planckqf_body sc spec temp =
     (let exP = map2 (\<lambda>s t. c2f (pconst sc) * s / t) spec temp;
          exP2 = np_where (map (\<lambda>x. x < explimit) exP) exP 1;
          (e, args) = np_exp exP2;
          p = map2 (\<lambda>s ex. c1nf (pconst sc) * s ^ 2 / (ex - 1)) spec e;
          planckA = np_where (map (\<lambda>x. x < explimit) exP) p 0
      in (planckA, args))"

definition planckql_body :: "scipy_constants \<Rightarrow> (real, real) flat_body" where
  "planckql_body sc spec temp =
     (let exP = map2 (\<lambda>s t. c2l (pconst sc) / (s * t)) spec temp;
          exP2 = np_where (map (\<lambda>x. x < explimit) exP) exP 1;
          (e, args) = np_exp exP2;
          p = map2 (\<lambda>s ex. (c1ql (pconst sc) / (ex - 1)) / (s ^ 4)) spec e;
          planckA = np_where (map (\<lambda>x. x < explimit) exP) p 0
      in (planckA, args))"

definition planckqn_body :: "scipy_constants \<Rightarrow> (real, real) flat_body" where
  "planckqn_body sc spec temp =
     (let exP = map2 (\<lambda>s t. c2n (pconst sc) * s / t) spec temp;
          exP2 = np_where (map (\<lambda>x. x < explimit) exP) exP 1;
          (e, args) = np_exp exP2;
          p = map2 (\<lambda>s ex. c1qn (pconst sc) * s ^ 2 / (ex - 1)) spec e;
          planckA = np_where (map (\<lambda>x. x < explimit) exP) p 0
      in (planckA, args))"

type_synonym 'a evaluator = "pyval \<Rightarrow> pyval \<Rightarrow> pyerror + 'a ndresult"

definition planckef :: "scipy_constants \<Rightarrow> real evaluator" where
  "planckef sc frequency temperature = fst (on_grid (planckef_body sc) frequency temperature)"

definition planckel :: "scipy_constants \<Rightarrow> real evaluator" where
  "planckel sc wavelength temperature = fst (on_grid (planckel_body sc) wavelength temperature)"

definition plancken :: "scipy_constants \<Rightarrow> real evaluator" where
  "plancken sc wavenumber temperature = fst (on_grid (plancken_body sc) wavenumber temperature)"

definition planckqf :: "scipy_constants \<Rightarrow> real evaluator" where
  "planckqf sc frequency temperature = fst (on_grid (planckqf_body sc) frequency temperature)"

definition planckql :: "scipy_constants \<Rightarrow> real evaluator" where
  "planckql sc wavelength temperature = fst (on_grid (planckql_body sc) wavelength temperature)"

definition planckqn :: "scipy_constants \<Rightarrow> real evaluator" where
  "planckqn sc wavenumber temperature = fst (on_grid (planckqn_body sc) wavenumber temperature)"

text \<open>The arguments that a call of an evaluator hands to \<^verbatim>\<open>numpy.exp\<close>.\<close>

definition exp_args_of :: "('a, 'b) flat_body \<Rightarrow> pyval \<Rightarrow> pyval \<Rightarrow> 'b list" where
  "exp_args_of body spectral temperature = snd (on_grid body spectral temperature)"

section \<open>Double arithmetic with its range\<close>

text \<open>
  The derivative functions take the exponential of an unclamped exponent, so their
  intermediate results leave the range of double precision for inputs that are well
  inside the range of use, and numpy then continues with an infinity or a
  not-a-number (a warning, never an exception). Their arithmetic is therefore modelled
  with the range of doubles: a value is a real number, an infinity of either sign, or
  not-a-number. Every operation returns the exact real result when that lies within
  the range, an infinity when it is too large, and zero when it is too small. Rounding
  inside the range is not modelled, and zero has no sign (a quotient by zero takes the
  sign of the numerator).
\<close>

datatype dbl = Fin real | PInf | NInf | NaN

text \<open>
  The least magnitude that rounds to an infinity (half way between the largest double
  and \<open>2 ^ 1024\<close>) and the largest magnitude that rounds to zero (half of the
  smallest subnormal).
\<close>

definition dbl_ovf :: real where
  "dbl_ovf = 2 ^ 1024 - 2 ^ 970"

definition dbl_unf :: real where
  "dbl_unf = 1 / 2 ^ 1075"

definition dbl_of :: "real \<Rightarrow> dbl" where
  "dbl_of r =
     (if dbl_ovf \<le> r then PInf
      else if r \<le> - dbl_ovf then NInf
      else if \<bar>r\<bar> \<le> dbl_unf then Fin 0
      else Fin r)"

definition inf_sign :: "bool \<Rightarrow> dbl" where
  "inf_sign positive = (if positive then PInf else NInf)"

fun d_mul :: "dbl \<Rightarrow> dbl \<Rightarrow> dbl" where
  "d_mul (Fin a) (Fin b) = dbl_of (a * b)"
| "d_mul (Fin a) PInf = (if a = 0 then NaN else inf_sign (0 < a))"
| "d_mul (Fin a) NInf = (if a = 0 then NaN else inf_sign (a < 0))"
| "d_mul PInf (Fin b) = (if b = 0 then NaN else inf_sign (0 < b))"
| "d_mul NInf (Fin b) = (if b = 0 then NaN else inf_sign (b < 0))"
| "d_mul PInf PInf = PInf"
| "d_mul PInf NInf = NInf"
| "d_mul NInf PInf = NInf"
| "d_mul NInf NInf = PInf"
| "d_mul NaN b = NaN"
| "d_mul a NaN = NaN"

fun d_div :: "dbl \<Rightarrow> dbl \<Rightarrow> dbl" where
  "d_div (Fin a) (Fin b) =
     (if b = 0 then (if a = 0 then NaN else inf_sign (0 < a)) else dbl_of (a / b))"
| "d_div (Fin a) PInf = Fin 0"
| "d_div (Fin a) NInf = Fin 0"
| "d_div PInf (Fin b) = inf_sign (0 \<le> b)"
| "d_div NInf (Fin b) = inf_sign (b < 0)"
| "d_div PInf PInf = NaN"
| "d_div PInf NInf = NaN"
| "d_div NInf PInf = NaN"
| "d_div NInf NInf = NaN"
| "d_div NaN b = NaN"
| "d_div a NaN = NaN"

fun d_sub :: "dbl \<Rightarrow> dbl \<Rightarrow> dbl" where
  "d_sub (Fin a) (Fin b) = dbl_of (a - b)"
| "d_sub (Fin a) PInf = NInf"
| "d_sub (Fin a) NInf = PInf"
| "d_sub PInf (Fin b) = PInf"
| "d_sub NInf (Fin b) = NInf"
| "d_sub PInf PInf = NaN"
| "d_sub PInf NInf = PInf"
| "d_sub NInf PInf = NInf"
| "d_sub NInf NInf = NaN"
| "d_sub NaN b = NaN"
| "d_sub a NaN = NaN"

fun d_neg :: "dbl \<Rightarrow> dbl" where
  "d_neg (Fin a) = Fin (- a)"
| "d_neg PInf = NInf"
| "d_neg NInf = PInf"
| "d_neg NaN = NaN"

text \<open>The power \<^verbatim>\<open>a ** n\<close> with a literal exponent, and \<^verbatim>\<open>exp\<close>.\<close>

fun d_pow :: "dbl \<Rightarrow> nat \<Rightarrow> dbl" where
  "d_pow (Fin a) n = dbl_of (a ^ n)"
| "d_pow PInf n = (if n = 0 then Fin 1 else PInf)"
| "d_pow NInf n = (if n = 0 then Fin 1 else inf_sign (even n))"
| "d_pow NaN n = (if n = 0 then Fin 1 else NaN)"

fun d_exp :: "dbl \<Rightarrow> dbl" where
  "d_exp (Fin a) = dbl_of (exp a)"
| "d_exp PInf = PInf"
| "d_exp NInf = Fin 0"
| "d_exp NaN = NaN"

text \<open>The operators of Python on these values.\<close>

instantiation dbl :: "{zero, one, times, inverse, minus, uminus}"
begin

definition zero_dbl_def: "0 = Fin 0"

definition one_dbl_def: "1 = Fin 1"

definition times_dbl_def: "a * b = d_mul a b"

definition divide_dbl_def: "a div b = d_div a b"

definition inverse_dbl_def: "inverse a = d_div (Fin 1) a"

definition minus_dbl_def: "a - b = d_sub a b"

definition uminus_dbl_def: "- a = d_neg a"

instance ..

end

text \<open>\<^verbatim>\<open>numpy.exp(a)\<close> on these values, with the record of its argument.\<close>

definition np_exp_d :: "dbl list \<Rightarrow> dbl list \<times> dbl list" where
  "np_exp_d a = (map d_exp a, a)"

section \<open>The six temperature derivatives\<close>

text \<open>
  The derivative functions call \<^verbatim>\<open>numpy.exp\<close> three times each; the arguments
  are recorded in the order of evaluation. The elements of the two input arrays and
  the constants of the table enter the arithmetic as doubles.
\<close>

definition dplnckef_body :: "scipy_constants \<Rightarrow> (dbl, dbl) flat_body" where
  "dplnckef_body sc spec temp =
     (let xx = map2 (\<lambda>s t. dbl_of (c2f (pconst sc)) * dbl_of s / dbl_of t) spec temp;
          (e1, args1) = np_exp_d xx;
          (e2, args2) = np_exp_d xx;
          f = map2 (\<lambda>(x, a) (t, b). x * a / (dbl_of t * (b - 1))) (zip xx e1) (zip temp e2);
          (e3, args3) =
            np_exp_d (map2 (\<lambda>s t. dbl_of (c2f (pconst sc)) * dbl_of s / dbl_of t) spec temp);
          y = map2 (\<lambda>s ex. dbl_of (c1ef (pconst sc)) * d_pow (dbl_of s) 3 / (ex - 1)) spec e3;
          dplanckA = map2 (\<lambda>a b. a * b) f y
      in (dplanckA, args1 @ args2 @ args3))"

definition dplnckel_body :: "scipy_constants \<Rightarrow> (dbl, dbl) flat_body" where
  "dplnckel_body sc spec temp =
     (let xx = map2 (\<lambda>s t. dbl_of (c2l (pconst sc)) / (dbl_of s * dbl_of t)) spec temp;
          (e1, args1) = np_exp_d xx;
          (e2, args2) = np_exp_d xx;
          (e3, args3) = np_exp_d xx;
          num = map2 (\<lambda>(x, a) b. dbl_of (c1el (pconst sc)) * x * a / (b - 1)) (zip xx e1) e2;
          den = map2 (\<lambda>(s, t) ex. dbl_of t * d_pow (dbl_of s) 5 * (ex - 1)) (zip spec temp) e3;
          dplanckA = map2 (\<lambda>a b. a / b) num den
      in (dplanckA, args1 @ args2 @ args3))"

definition dplncken_body :: "scipy_constants \<Rightarrow> (dbl, dbl) flat_body" where
  "dplncken_body sc spec temp =
     (let xx = map2 (\<lambda>s t. dbl_of (c2n (pconst sc)) * dbl_of s / dbl_of t) spec temp;
          (e1, args1) = np_exp_d xx;
          (e2, args2) = np_exp_d xx;
          f = map2 (\<lambda>(x, a) (t, b). x * a / (dbl_of t * (b - 1))) (zip xx e1) (zip temp e2);
          (e3, args3) =
            np_exp_d (map2 (\<lambda>s t. dbl_of (c2n (pconst sc)) * dbl_of s / dbl_of t) spec temp);
          y = map2 (\<lambda>s ex. dbl_of (c1en (pconst sc)) * d_pow (dbl_of s) 3 / (ex - 1)) spec e3;
          dplanckA = map2 (\<lambda>a b. a * b) f y
      in (dplanckA, args1 @ args2 @ args3))"

definition dplnckqf_body :: "scipy_constants \<Rightarrow> (dbl, dbl) flat_body" where
  "dplnckqf_body sc spec temp =
     (let xx = map2 (\<lambda>s t. dbl_of (c2f (pconst sc)) * dbl_of s / dbl_of t) spec temp;
          (e1, args1) = np_exp_d xx;
          (e2, args2) = np_exp_d xx;
          f = map2 (\<lambda>(x, a) (t, b). x * a / (dbl_of t * (b - 1))) (zip xx e1) (zip temp e2);
          (e3, args3) =
            np_exp_d (map2 (\<lambda>s t. dbl_of (c2f (pconst sc)) * dbl_of s / dbl_of t) spec temp);
          y = map2 (\<lambda>s ex. dbl_of (c1nf (pconst sc)) * d_pow (dbl_of s) 2 / (ex - 1)) spec e3;
          dplanckA = map2 (\<lambda>a b. a * b) f y
      in (dplanckA, args1 @ args2 @ args3))"

definition dplnckql_body :: "scipy_constants \<Rightarrow> (dbl, dbl) flat_body" where
  "dplnckql_body sc spec temp =
     (let xx = map2 (\<lambda>s t. dbl_of (c2l (pconst sc)) / (dbl_of s * dbl_of t)) spec temp;
          (e1, args1) = np_exp_d xx;
          (e2, args2) = np_exp_d xx;
          f = map2 (\<lambda>(x, a) (t, b). x * a / (dbl_of t * (b - 1))) (zip xx e1) (zip temp e2);
          (e3, args3) =
            np_exp_d (map2 (\<lambda>s t. dbl_of (c2l (pconst sc)) / (dbl_of t * dbl_of s)) spec temp);
          y = map2 (\<lambda>s ex. dbl_of (c1ql (pconst sc)) / (d_pow (dbl_of s) 4 * (ex - 1))) spec e3;
          dplanckA = map2 (\<lambda>a b. a * b) f y
      in (dplanckA, args1 @ args2 @ args3))"

definition dplnckqn_body :: "scipy_constants \<Rightarrow> (dbl, dbl) flat_body" where
  "dplnckqn_body sc spec temp =
     (let xx = map2 (\<lambda>s t. dbl_of (c2n (pconst sc)) * dbl_of s / dbl_of t) spec temp;
          (e1, args1) = np_exp_d xx;
          (e2, args2) = np_exp_d xx;
          f = map2 (\<lambda>(x, a) (t, b). x * a / (dbl_of t * (b - 1))) (zip xx e1) (zip temp e2);
          (e3, args3) =
            np_exp_d (map2 (\<lambda>s t. dbl_of (c2n (pconst sc)) * dbl_of s / dbl_of t) spec temp);
          y = map2 (\<lambda>s ex. dbl_of (c1qn (pconst sc)) * d_pow (dbl_of s) 2 / (ex - 1)) spec e3;
          dplanckA = map2 (\<lambda>a b. a * b) f y
      in (dplanckA, args1 @ args2 @ args3))"

definition dplnckef :: "scipy_constants \<Rightarrow> dbl evaluator" where
  "dplnckef sc frequency temperature = fst (on_grid (dplnckef_body sc) frequency temperature)"

definition dplnckel :: "scipy_constants \<Rightarrow> dbl evaluator" where
  "dplnckel sc wavelength temperature = fst (on_grid (dplnckel_body sc) wavelength temperature)"

definition dplncken :: "scipy_constants \<Rightarrow> dbl evaluator" where
  "dplncken sc wavenumber temperature = fst (on_grid (dplncken_body sc) wavenumber temperature)"

definition dplnckqf :: "scipy_constants \<Rightarrow> dbl evaluator" where
  "dplnckqf sc frequency temperature = fst (on_grid (dplnckqf_body sc) frequency temperature)"

definition dplnckql :: "scipy_constants \<Rightarrow> dbl evaluator" where
  "dplnckql sc wavelength temperature = fst (on_grid (dplnckql_body sc) wavelength temperature)"

definition dplnckqn :: "scipy_constants \<Rightarrow> dbl evaluator" where
  "dplnckqn sc wavenumber temperature = fst (on_grid (dplnckqn_body sc) wavenumber temperature)"

section \<open>Dispatch by selector\<close>

text \<open>The dictionaries \<^verbatim>\<open>plancktype\<close> and \<^verbatim>\<open>dplancktype\<close>, in source order.\<close>

definition plancktype :: "scipy_constants \<Rightarrow> (string \<times> real evaluator) list" where
  "plancktype sc =
     [(''el'', planckel sc), (''ef'', planckef sc), (''en'', plancken sc),
      (''ql'', planckql sc), (''qf'', planckqf sc), (''qn'', planckqn sc)]"

definition dplancktype :: "scipy_constants \<Rightarrow> (string \<times> dbl evaluator) list" where
  "dplancktype sc =
     [(''el'', dplnckel sc), (''ef'', dplnckef sc), (''en'', dplncken sc),
      (''ql'', dplnckql sc), (''qf'', dplnckqf sc), (''qn'', dplnckqn sc)]"

definition keys :: "(string \<times> 'a) list \<Rightarrow> string list" where
  "keys d = map fst d"

text \<open>
  The attribute \<^verbatim>\<open>spectral.shape\<close>: a numpy array or scalar has it, a Python
  number or list does not, and reading it raises AttributeError.
\<close>

fun shape_attr :: "pyval \<Rightarrow> pyerror + nat list" where
  "shape_attr (PyFloat x) = Inl AttributeError"
| "shape_attr (PyList xs) = Inl AttributeError"
| "shape_attr (NpFloat x) = Inr []"
| "shape_attr (NdArray xs) = Inr [length xs]"

definition np_ones :: "nat list \<Rightarrow> ('a::one) ndresult" where
  "np_ones shp = NdArr shp (replicate (prod_list shp) 1)"

fun np_negative :: "('a::uminus) ndresult \<Rightarrow> 'a ndresult" where
  "np_negative (RScalar v) = RScalar (- v)"
| "np_negative (NdArr shp d) = NdArr shp (map uminus d)"

definition planck ::
  "scipy_constants \<Rightarrow> pyval \<Rightarrow> pyval \<Rightarrow> string \<Rightarrow> pyerror + real ndresult" where
  "planck sc spectral temperature ty =
     (if ty \<in> set (keys (plancktype sc)) then
        (case map_of (plancktype sc) ty of
           Some f \<Rightarrow> f spectral temperature
         | None \<Rightarrow> Inl KeyError)
      else
        (case shape_attr spectral of
           Inl e \<Rightarrow> Inl e
         | Inr shp \<Rightarrow> Inr (np_negative (np_ones shp))))"

definition dplanck ::
  "scipy_constants \<Rightarrow> pyval \<Rightarrow> pyval \<Rightarrow> string \<Rightarrow> pyerror + dbl ndresult" where
  "dplanck sc spectral temperature ty =
     (if ty \<in> set (keys (dplancktype sc)) then
        (case map_of (dplancktype sc) ty of
           Some f \<Rightarrow> f spectral temperature
         | None \<Rightarrow> Inl KeyError)
      else
        (case shape_attr spectral of
           Inl e \<Rightarrow> Inl e
         | Inr shp \<Rightarrow> Inr (np_negative (np_ones shp))))"

section \<open>Chromaticity\<close>

text \<open>
  A quotient of two numpy floats never raises: a zero divisor gives an infinity (of
  the sign of the operands) or, for zero over zero, not-a-number. The real numbers
  have no such values, so the result of the one division of the module chroma is a
  value of its own type.
\<close>

datatype npfloat = Finite real | Infinite | NaN

definition np_divide :: "real \<Rightarrow> real \<Rightarrow> npfloat" where
  "np_divide a b = (if b \<noteq> 0 then Finite (a / b) else if a = 0 then NaN else Infinite)"

text \<open>
  The product of two column arrays of shapes (n, 1) and (m, 1) under numpy
  broadcasting: equal lengths, or one of them of length 1; anything else raises
  ValueError.
\<close>

definition bcast_mul :: "real list \<Rightarrow> real list \<Rightarrow> pyerror + real list" where
  "bcast_mul a b =
     (if length a = length b then Inr (map2 (\<lambda>u v. u * v) a b)
      else if length a = 1 then Inr (map (\<lambda>v. hd a * v) b)
      else if length b = 1 then Inr (map (\<lambda>u. u * hd b) a)
      else Inl ValueError)"

text \<open>
  \<^verbatim>\<open>numpy.trapz(y, x, axis=0)\<close> for a column \<open>y\<close>, as the library computes it:
  \<^verbatim>\<open>d = diff(x)\<close>, then \<^verbatim>\<open>(d * (y[1:] + y[:-1]) / 2.0).sum(axis)\<close>.
\<close>

definition np_diff :: "real list \<Rightarrow> real list" where
  "np_diff x = map2 (\<lambda>u v. u - v) (tl x) (butlast x)"

definition trapz :: "real list \<Rightarrow> real list \<Rightarrow> pyerror + real" where
  "trapz y x =
     (let d = np_diff x;
          s = map2 (\<lambda>u v. u + v) (tl y) (butlast y)
      in case bcast_mul d s of
           Inl e \<Rightarrow> Inl e
         | Inr p \<Rightarrow> Inr (sum_list (map (\<lambda>v. v / 2) p)))"

text \<open>
  \<^verbatim>\<open>chromaticityforSpectralL(spectral, radiance, xbar, ybar, zbar)\<close>; each argument
  is a numpy array of shape (N,) or (N, 1), given by its elements.
\<close>

definition chromaticityforSpectralL ::
  "real list \<Rightarrow> real list \<Rightarrow> real list \<Rightarrow> real list \<Rightarrow> real list
     \<Rightarrow> pyerror + (npfloat \<times> npfloat \<times> npfloat)" where
  "chromaticityforSpectralL spectral radiance xbar ybar zbar =
     (case bcast_mul radiance xbar of Inl e \<Rightarrow> Inl e | Inr rx \<Rightarrow>
      case trapz rx spectral of Inl e \<Rightarrow> Inl e | Inr X \<Rightarrow>
      case bcast_mul radiance ybar of Inl e \<Rightarrow> Inl e | Inr ry \<Rightarrow>
      case trapz ry spectral of Inl e \<Rightarrow> Inl e | Inr Y \<Rightarrow>
      case bcast_mul radiance zbar of Inl e \<Rightarrow> Inl e | Inr rz \<Rightarrow>
      case trapz rz spectral of Inl e \<Rightarrow> Inl e | Inr Z \<Rightarrow>
        (let x = np_divide X (X + Y + Z);
             y = np_divide Y (X + Y + Z)
         in Inr (x, y, Finite Y)))"

text \<open>
  The composite trapezoidal rule over the grid \<open>x\<close> for the samples \<open>f\<close>, written as
  the sum over the intervals.
\<close>

definition trapezoid_rule :: "real list \<Rightarrow> (nat \<Rightarrow> real) \<Rightarrow> real" where
  "trapezoid_rule x f =
     (\<Sum>i < length x - 1. (x ! (i + 1) - x ! i) * (f (i + 1) + f i) / 2)"

section \<open>Auxiliary facts about the array model\<close>

lemma codata2010_valid: "valid_constants codata2010"
  by (simp add: valid_constants_def codata2010_def)

lemma c2_codata:
  "c2l (pconst codata2010) = 6.62606957 / 10 ^ 34 * 299792458 / (1.3806488 / 10 ^ 23) * 10 ^ 6"
  "c2n (pconst codata2010) = 6.62606957 / 10 ^ 34 * 299792458 / (1.3806488 / 10 ^ 23) * 10 ^ 2"
  "c2f (pconst codata2010) = 6.62606957 / 10 ^ 34 / (1.3806488 / 10 ^ 23)"
  by (simp_all add: pconst_def PlanckConstants_init_def codata2010_def Let_def)

lemma concat_replicate_nth:
  "i < length xs \<Longrightarrow> j < m \<Longrightarrow> concat (replicate m xs) ! (j * length xs + i) = xs ! i"
proof (induction j arbitrary: m)
  case 0 then show ?case by (cases m) (auto simp: nth_append)
next
  case (Suc j)
  then obtain m' where m: "m = Suc m'" by (cases m) auto
  with Suc show ?case by (simp add: nth_append)
qed

lemma concat_map_replicate_nth:
  "i < n \<Longrightarrow> j < length ts \<Longrightarrow> concat (map (\<lambda>t. replicate n t) ts) ! (j * n + i) = ts ! j"
proof (induction ts arbitrary: j)
  case Nil then show ?case by simp
next
  case (Cons t ts)
  show ?case
  proof (cases j)
    case 0 with Cons show ?thesis by (simp add: nth_append)
  next
    case (Suc j') with Cons show ?thesis by (simp add: nth_append)
  qed
qed

lemma length_concat_replicate: "length (concat (replicate m xs)) = m * length xs"
  by (induction m) auto

lemma length_concat_map_replicate: "length (concat (map (\<lambda>t. replicate n t) ts)) = length ts * n"
  by (induction ts) auto

lemma grid_index_less: "i < (n::nat) \<Longrightarrow> j < m \<Longrightarrow> j * n + i < m * n"
proof -
  assume a: "i < n" "j < m"
  then have "j * n + i < j * n + n" by simp
  also have "\<dots> = Suc j * n" by simp
  also have "\<dots> \<le> m * n" using a by (intro mult_le_mono1) simp
  finally show ?thesis .
qed

lemma unflatten_elem:
  assumes len: "length A = length T * length S" and i: "i < length S" and j: "j < length T"
  shows "\<exists>r. unflatten T S A = Inr r \<and> result_at r i j = A ! (j * length S + i)"
proof -
  consider (a) "length T = 1" "length S = 1"
    | (b) "length T = 1" "length S \<noteq> 1"
    | (c) "length T \<noteq> 1" "length S = 1"
    | (d) "length T \<noteq> 1" "length S \<noteq> 1" by blast
  then show ?thesis
  proof cases
    case a
    with len obtain v where "A = [v]" by (cases A) auto
    with a i j show ?thesis by (simp add: unflatten_def)
  next
    case b
    with len i j show ?thesis by (simp add: unflatten_def reshape1_def)
  next
    case c
    with len i j show ?thesis by (simp add: unflatten_def reshape2_def)
  next
    case d
    let ?M = "length T" and ?N = "length S"
    have M0: "?M \<noteq> 0" using j by auto
    have r: "reshape2 ?M A = Inr (NdArr [?M, ?N] A)"
      using len M0 by (simp add: reshape2_def)
    have lt: "i * ?M + j < ?N * ?M" using grid_index_less [OF j i] .
    have m: "(i * ?M + j) mod ?M = j" using j by simp
    have "(j + i * ?M) div ?M = i + j div ?M" using M0 by simp
    then have dv: "(i * ?M + j) div ?M = i" using j by (simp add: add.commute)
    show ?thesis using d r lt m dv by (simp add: unflatten_def)
  qed
qed

lemma unflatten_shape:
  assumes len: "length A = length T * length S"
  shows "(length T = 1 \<and> length S = 1 \<longrightarrow> (\<exists>v. unflatten T S A = Inr (RScalar v)))
       \<and> (length T = 1 \<and> length S \<noteq> 1 \<longrightarrow> unflatten T S A = Inr (NdArr [length S] A))
       \<and> (length T \<noteq> 1 \<and> length S = 1 \<longrightarrow> unflatten T S A = Inr (NdArr [1, length T] A))
       \<and> (length T \<noteq> 1 \<and> length S \<noteq> 1 \<and> length T \<noteq> 0 \<longrightarrow>
            (\<exists>d. unflatten T S A = Inr (NdArr [length S, length T] d) \<and> length d = length S * length T))
       \<and> (length T = 0 \<and> length S \<noteq> 1 \<longrightarrow> unflatten T S A = Inl ValueError)"
proof -
  have a: "length T = 1 \<and> length S = 1 \<longrightarrow> (\<exists>v. unflatten T S A = Inr (RScalar v))"
  proof
    assume h: "length T = 1 \<and> length S = 1"
    with len obtain v where "A = [v]" by (cases A) auto
    with h show "\<exists>v. unflatten T S A = Inr (RScalar v)" by (simp add: unflatten_def)
  qed
  have b: "length T = 1 \<and> length S \<noteq> 1 \<longrightarrow> unflatten T S A = Inr (NdArr [length S] A)"
    using len by (simp add: unflatten_def reshape1_def)
  have c: "length T \<noteq> 1 \<and> length S = 1 \<longrightarrow> unflatten T S A = Inr (NdArr [1, length T] A)"
    using len by (simp add: unflatten_def reshape2_def)
  have d: "length T \<noteq> 1 \<and> length S \<noteq> 1 \<and> length T \<noteq> 0 \<longrightarrow>
            (\<exists>d. unflatten T S A = Inr (NdArr [length S, length T] d) \<and> length d = length S * length T)"
    using len by (simp add: unflatten_def reshape2_def)
  have e: "length T = 0 \<and> length S \<noteq> 1 \<longrightarrow> unflatten T S A = Inl ValueError"
    using len by (simp add: unflatten_def reshape2_def)
  from a b c d e show ?thesis by blast
qed


lemma grid_lengths:
  "length (ravel (fst (meshgrid S T))) = length T * length S"
  "length (ravel (snd (meshgrid S T))) = length T * length S"
  by (simp_all add: meshgrid_def ravel_def length_concat_replicate length_concat_map_replicate)

lemma grid_nth:
  assumes "i < length S" "j < length T"
  shows "ravel (fst (meshgrid S T)) ! (j * length S + i) = S ! i"
    and "ravel (snd (meshgrid S T)) ! (j * length S + i) = T ! j"
  using assms
  by (simp_all add: meshgrid_def ravel_def concat_replicate_nth concat_map_replicate_nth)

lemma on_grid_fst:
  "fst (on_grid body spectral temperature) =
     unflatten (np_array temperature) (np_array spectral)
       (fst (body (ravel (fst (meshgrid (np_array spectral) (np_array temperature))))
                  (ravel (snd (meshgrid (np_array spectral) (np_array temperature))))))"
  by (simp add: on_grid_def Let_def split_beta)

lemma on_grid_snd:
  "snd (on_grid body spectral temperature) =
       (snd (body (ravel (fst (meshgrid (np_array spectral) (np_array temperature))))
                  (ravel (snd (meshgrid (np_array spectral) (np_array temperature))))))"
  by (simp add: on_grid_def Let_def split_beta)

lemma on_grid_elem:
  assumes body: "\<And>spec temp. fst (body spec temp) = map2 g spec temp"
    and i: "i < length (np_array spectral)" and j: "j < length (np_array temperature)"
  shows "\<exists>r. fst (on_grid body spectral temperature) = Inr r
            \<and> result_at r i j = g (np_array spectral ! i) (np_array temperature ! j)"
proof -
  let ?S = "np_array spectral" and ?T = "np_array temperature"
  let ?spec = "ravel (fst (meshgrid ?S ?T))" and ?temp = "ravel (snd (meshgrid ?S ?T))"
  let ?A = "map2 g ?spec ?temp"
  have A: "fst (body ?spec ?temp) = ?A" using body by simp
  have len: "length ?A = length ?T * length ?S" by (simp add: grid_lengths)
  have lt: "j * length ?S + i < length ?T * length ?S" using grid_index_less [OF i j] .
  have nth: "?A ! (j * length ?S + i) = g (?S ! i) (?T ! j)"
    using lt by (simp add: grid_lengths grid_nth [OF i j])
  from unflatten_elem [OF len i j] obtain r where
    "unflatten ?T ?S ?A = Inr r" "result_at r i j = ?A ! (j * length ?S + i)" by blast
  then show ?thesis using A nth by (simp add: on_grid_fst)
qed

lemma sum_list_map2_nth:
  "length xs = length ys \<Longrightarrow> sum_list (map2 f xs ys) = (\<Sum>i < length xs. f (xs ! i) (ys ! i))"
  by (simp add: sum_list_sum_nth atLeast0LessThan)

lemma trapz_sum:
  assumes "length y = length x"
  shows "trapz y x = Inr (trapezoid_rule x (\<lambda>i. y ! i))"
proof -
  let ?d = "np_diff x"
  let ?s = "map2 (\<lambda>u v. u + v) (tl y) (butlast y)"
  have ld: "length ?d = length x - 1" by (simp add: np_diff_def)
  have ls: "length ?s = length x - 1" using assms by simp
  have b: "bcast_mul ?d ?s = Inr (map2 (\<lambda>u v. u * v) ?d ?s)"
    using ld ls by (simp add: bcast_mul_def)
  have "sum_list (map (\<lambda>v. v / 2) (map2 (\<lambda>u v. u * v) ?d ?s))
        = (\<Sum>i < length x - 1. (x ! (i + 1) - x ! i) * (y ! (i + 1) + y ! i) / 2)"
    using assms
    by (simp add: sum_list_sum_nth atLeast0LessThan np_diff_def nth_tl nth_butlast)
  then show ?thesis
    using b by (simp add: trapz_def Let_def trapezoid_rule_def)
qed

lemma planckel_body_pointwise:
  "fst (planckel_body sc spec temp) =
     map2 (\<lambda>s t. if c2l (pconst sc) / (s * t) < explimit
                  then (c1el (pconst sc) / (exp (c2l (pconst sc) / (s * t)) - 1)) / s ^ 5 else 0) spec temp"
  by (rule nth_equalityI) (simp_all add: planckel_body_def Let_def np_where_def np_exp_def)

lemma planckql_body_pointwise:
  "fst (planckql_body sc spec temp) =
     map2 (\<lambda>s t. if c2l (pconst sc) / (s * t) < explimit
                  then (c1ql (pconst sc) / (exp (c2l (pconst sc) / (s * t)) - 1)) / s ^ 4 else 0) spec temp"
  by (rule nth_equalityI) (simp_all add: planckql_body_def Let_def np_where_def np_exp_def)

lemma plancken_body_pointwise:
  "fst (plancken_body sc spec temp) =
     map2 (\<lambda>s t. if c2n (pconst sc) * (s / t) < explimit
                  then c1en (pconst sc) * s ^ 3 / (exp (c2n (pconst sc) * (s / t)) - 1) else 0) spec temp"
  by (rule nth_equalityI) (simp_all add: plancken_body_def Let_def np_where_def np_exp_def)

lemma planckqn_body_pointwise:
  "fst (planckqn_body sc spec temp) =
     map2 (\<lambda>s t. if c2n (pconst sc) * s / t < explimit
                  then c1qn (pconst sc) * s ^ 2 / (exp (c2n (pconst sc) * s / t) - 1) else 0) spec temp"
  by (rule nth_equalityI) (simp_all add: planckqn_body_def Let_def np_where_def np_exp_def)

lemma planckef_body_pointwise:
  "fst (planckef_body sc spec temp) =
     map2 (\<lambda>s t. if c2f (pconst sc) * s / t < explimit
                  then c1ef (pconst sc) * s ^ 3 / (exp (c2f (pconst sc) * s / t) - 1) else 0) spec temp"
  by (rule nth_equalityI) (simp_all add: planckef_body_def Let_def np_where_def np_exp_def)

lemma planckqf_body_pointwise:
  "fst (planckqf_body sc spec temp) =
     map2 (\<lambda>s t. if c2f (pconst sc) * s / t < explimit
                  then c1nf (pconst sc) * s ^ 2 / (exp (c2f (pconst sc) * s / t) - 1) else 0) spec temp"
  by (rule nth_equalityI) (simp_all add: planckqf_body_def Let_def np_where_def np_exp_def)


lemma np_where_self:
  "np_where (map P xs) xs b = map (\<lambda>x. if P x then x else b) xs"
  by (rule nth_equalityI) (simp_all add: np_where_def)

lemma exitance_exp_args_clamped:
  assumes "body \<in> {planckel_body sc, planckql_body sc, planckqn_body sc,
                     planckef_body sc, planckqf_body sc}"
    and "a \<in> set (exp_args_of body spectral temperature)"
  shows "a < explimit"
proof -
  have one: "1 < explimit" by (simp add: explimit_def)
  show ?thesis
    using assms one
    by (auto simp: exp_args_of_def on_grid_snd planckel_body_def planckql_body_def
          planckqn_body_def planckef_body_def planckqf_body_def Let_def np_exp_def np_where_self
          split: if_splits)
qed

lemma on_grid_scalar:
  assumes body: "\<And>spec temp. fst (body spec temp) = map2 g spec temp"
  shows "fst (on_grid body (PyFloat a) (PyFloat b)) = Inr (RScalar (g a b))"
  using body [of "[a]" "[b]"]
  by (simp add: on_grid_fst meshgrid_def ravel_def unflatten_def)

lemma on_grid_shape:
  fixes g :: "real \<Rightarrow> real \<Rightarrow> 'a::zero"
  assumes body: "\<And>spec temp. fst (body spec temp) = map2 g spec temp"
  shows "(let S = np_array spectral; T = np_array temperature; N = length S; M = length T;
              f = (\<lambda>x y. fst (on_grid body x y)) in
      (N = 1 \<and> M = 1 \<longrightarrow> (\<exists>v. f spectral temperature = Inr (RScalar v)))
    \<and> (N \<noteq> 1 \<and> M = 1 \<longrightarrow>
         (\<exists>d. f spectral temperature = Inr (NdArr [N] d) \<and> length d = N
            \<and> (\<forall>i<N. f (PyFloat (S ! i)) (PyFloat (T ! 0)) = Inr (RScalar (d ! i)))))
    \<and> (N \<noteq> 1 \<and> 2 \<le> M \<longrightarrow>
         (\<exists>d. f spectral temperature = Inr (NdArr [N, M] d) \<and> length d = N * M
            \<and> (\<forall>i<N. \<forall>j<M. f (PyFloat (S ! i)) (PyFloat (T ! j))
                   = Inr (RScalar (d ! (i * M + j)))))))"
proof -
  let ?S = "np_array spectral" and ?T = "np_array temperature"
  let ?spec = "ravel (fst (meshgrid ?S ?T))" and ?temp = "ravel (snd (meshgrid ?S ?T))"
  let ?A = "map2 g ?spec ?temp"
  let ?f = "\<lambda>x y. fst (on_grid body x y)"
  have A: "?f spectral temperature = unflatten ?T ?S ?A"
    using body by (simp add: on_grid_fst)
  have len: "length ?A = length ?T * length ?S" by (simp add: grid_lengths)
  note sh = unflatten_shape [OF len]
  note sc = on_grid_scalar [OF body]
  have el: "\<And>i j r. i < length ?S \<Longrightarrow> j < length ?T \<Longrightarrow> ?f spectral temperature = Inr r
              \<Longrightarrow> ?f (PyFloat (?S ! i)) (PyFloat (?T ! j)) = Inr (RScalar (result_at r i j))"
  proof -
    fix i j r assume i: "i < length ?S" and j: "j < length ?T"
      and r: "?f spectral temperature = Inr r"
    from on_grid_elem [OF body i j] r
    have "result_at r i j = g (?S ! i) (?T ! j)" by auto
    then show "?f (PyFloat (?S ! i)) (PyFloat (?T ! j)) = Inr (RScalar (result_at r i j))"
      using sc by simp
  qed
  have a: "length ?S = 1 \<and> length ?T = 1 \<longrightarrow> (\<exists>v. ?f spectral temperature = Inr (RScalar v))"
    using sh A by simp
  have b: "length ?S \<noteq> 1 \<and> length ?T = 1 \<longrightarrow>
         (\<exists>d. ?f spectral temperature = Inr (NdArr [length ?S] d) \<and> length d = length ?S
            \<and> (\<forall>i<length ?S. ?f (PyFloat (?S ! i)) (PyFloat (?T ! 0)) = Inr (RScalar (d ! i))))"
  proof
    assume h: "length ?S \<noteq> 1 \<and> length ?T = 1"
    with sh A have r: "?f spectral temperature = Inr (NdArr [length ?S] ?A)" by simp
    have "\<forall>i<length ?S. ?f (PyFloat (?S ! i)) (PyFloat (?T ! 0)) = Inr (RScalar (?A ! i))"
    proof (intro allI impI)
      fix i assume i: "i < length ?S"
      have j: "0 < length ?T" using h by simp
      from el [OF i j r] show "?f (PyFloat (?S ! i)) (PyFloat (?T ! 0)) = Inr (RScalar (?A ! i))"
        by simp
    qed
    with r len h show "\<exists>d. ?f spectral temperature = Inr (NdArr [length ?S] d)
            \<and> length d = length ?S
            \<and> (\<forall>i<length ?S. ?f (PyFloat (?S ! i)) (PyFloat (?T ! 0)) = Inr (RScalar (d ! i)))"
      by simp
  qed
  have c: "length ?S \<noteq> 1 \<and> 2 \<le> length ?T \<longrightarrow>
         (\<exists>d. ?f spectral temperature = Inr (NdArr [length ?S, length ?T] d)
            \<and> length d = length ?S * length ?T
            \<and> (\<forall>i<length ?S. \<forall>j<length ?T. ?f (PyFloat (?S ! i)) (PyFloat (?T ! j))
                   = Inr (RScalar (d ! (i * length ?T + j)))))"
  proof
    assume h: "length ?S \<noteq> 1 \<and> 2 \<le> length ?T"
    with sh A obtain d where r: "?f spectral temperature = Inr (NdArr [length ?S, length ?T] d)"
      and ld: "length d = length ?S * length ?T" by auto
    have "\<forall>i<length ?S. \<forall>j<length ?T. ?f (PyFloat (?S ! i)) (PyFloat (?T ! j))
                   = Inr (RScalar (d ! (i * length ?T + j)))"
    proof (intro allI impI)
      fix i j assume i: "i < length ?S" and j: "j < length ?T"
      from el [OF i j r] show "?f (PyFloat (?S ! i)) (PyFloat (?T ! j))
                   = Inr (RScalar (d ! (i * length ?T + j)))" by simp
    qed
    with r ld show "\<exists>d. ?f spectral temperature = Inr (NdArr [length ?S, length ?T] d)
            \<and> length d = length ?S * length ?T
            \<and> (\<forall>i<length ?S. \<forall>j<length ?T. ?f (PyFloat (?S ! i)) (PyFloat (?T ! j))
                   = Inr (RScalar (d ! (i * length ?T + j))))" by blast
  qed
  from a b c show ?thesis unfolding Let_def by blast
qed

lemma on_grid_row_shape:
  assumes body: "\<And>spec temp. fst (body spec temp) = map2 g spec temp"
    and "length (np_array spectral) = 1" "length (np_array temperature) \<noteq> 1"
  shows "\<exists>d. fst (on_grid body spectral temperature)
            = Inr (NdArr [1, length (np_array temperature)] d)"
proof -
  let ?S = "np_array spectral" and ?T = "np_array temperature"
  let ?A = "map2 g (ravel (fst (meshgrid ?S ?T))) (ravel (snd (meshgrid ?S ?T)))"
  have len: "length ?A = length ?T * length ?S" by (simp add: grid_lengths)
  show ?thesis using unflatten_shape [OF len] assms by (simp add: on_grid_fst)
qed

section \<open>Auxiliary facts about the double arithmetic and the derivative bodies\<close>

lemma dplnckef_body_pointwise:
  "fst (dplnckef_body sc spec temp) =
     map2 (\<lambda>s t. let X = dbl_of (c2f (pconst sc)) * dbl_of s / dbl_of t; E = d_exp X in
                    X * E / (dbl_of t * (E - 1))
                    * (dbl_of (c1ef (pconst sc)) * d_pow (dbl_of s) 3 / (E - 1))) spec temp"
  by (rule nth_equalityI) (simp_all add: dplnckef_body_def Let_def np_exp_d_def)

lemma dplnckel_body_pointwise:
  "fst (dplnckel_body sc spec temp) =
     map2 (\<lambda>s t. let X = dbl_of (c2l (pconst sc)) / (dbl_of s * dbl_of t); E = d_exp X in
                    (dbl_of (c1el (pconst sc)) * X * E / (E - 1))
                    / (dbl_of t * d_pow (dbl_of s) 5 * (E - 1))) spec temp"
  by (rule nth_equalityI) (simp_all add: dplnckel_body_def Let_def np_exp_d_def)

lemma dplncken_body_pointwise:
  "fst (dplncken_body sc spec temp) =
     map2 (\<lambda>s t. let X = dbl_of (c2n (pconst sc)) * dbl_of s / dbl_of t; E = d_exp X in
                    X * E / (dbl_of t * (E - 1))
                    * (dbl_of (c1en (pconst sc)) * d_pow (dbl_of s) 3 / (E - 1))) spec temp"
  by (rule nth_equalityI) (simp_all add: dplncken_body_def Let_def np_exp_d_def)

lemma dplnckqf_body_pointwise:
  "fst (dplnckqf_body sc spec temp) =
     map2 (\<lambda>s t. let X = dbl_of (c2f (pconst sc)) * dbl_of s / dbl_of t; E = d_exp X in
                    X * E / (dbl_of t * (E - 1))
                    * (dbl_of (c1nf (pconst sc)) * d_pow (dbl_of s) 2 / (E - 1))) spec temp"
  by (rule nth_equalityI) (simp_all add: dplnckqf_body_def Let_def np_exp_d_def)

lemma dplnckql_body_pointwise:
  "fst (dplnckql_body sc spec temp) =
     map2 (\<lambda>s t. let X = dbl_of (c2l (pconst sc)) / (dbl_of s * dbl_of t); E = d_exp X;
                        E3 = d_exp (dbl_of (c2l (pconst sc)) / (dbl_of t * dbl_of s)) in
                    X * E / (dbl_of t * (E - 1))
                    * (dbl_of (c1ql (pconst sc)) / (d_pow (dbl_of s) 4 * (E3 - 1)))) spec temp"
  by (rule nth_equalityI) (simp_all add: dplnckql_body_def Let_def np_exp_d_def)

lemma dplnckqn_body_pointwise:
  "fst (dplnckqn_body sc spec temp) =
     map2 (\<lambda>s t. let X = dbl_of (c2n (pconst sc)) * dbl_of s / dbl_of t; E = d_exp X in
                    X * E / (dbl_of t * (E - 1))
                    * (dbl_of (c1qn (pconst sc)) * d_pow (dbl_of s) 2 / (E - 1))) spec temp"
  by (rule nth_equalityI) (simp_all add: dplnckqn_body_def Let_def np_exp_d_def)







lemma dbl_of_FinD: "dbl_of r = Fin v \<Longrightarrow> v \<noteq> 0 \<Longrightarrow> v = r"
  by (auto simp: dbl_of_def split: if_splits)






lemma dbl_of_FinE:
  assumes "dbl_of r = Fin v" "v \<noteq> 0"
  obtains "v = r" "r \<noteq> 0"
  using assms dbl_of_FinD by blast
























lemma exitance_on_grid:
  assumes "f \<in> set (map snd (plancktype sc))"
  shows "\<exists>(body :: (real, real) flat_body) g. f = (\<lambda>x y. fst (on_grid body x y))
            \<and> (\<forall>spec temp. fst (body spec temp) = map2 g spec temp)"
proof -
  have e: "\<And>h body. (\<And>x y. h x y = fst (on_grid body x y))
             \<Longrightarrow> h = (\<lambda>x y. fst (on_grid body x y))"
    by (intro ext) simp
  from assms consider
      "f = planckel sc" | "f = planckef sc" | "f = plancken sc"
    | "f = planckql sc" | "f = planckqf sc" | "f = planckqn sc"
    by (auto simp: plancktype_def)
  then show ?thesis
  proof cases
    case 1 then show ?thesis using e [of "planckel sc", OF planckel_def] planckel_body_pointwise by blast
  next
    case 2 then show ?thesis using e [of "planckef sc", OF planckef_def] planckef_body_pointwise by blast
  next
    case 3 then show ?thesis using e [of "plancken sc", OF plancken_def] plancken_body_pointwise by blast
  next
    case 4 then show ?thesis using e [of "planckql sc", OF planckql_def] planckql_body_pointwise by blast
  next
    case 5 then show ?thesis using e [of "planckqf sc", OF planckqf_def] planckqf_body_pointwise by blast
  next
    case 6 then show ?thesis using e [of "planckqn sc", OF planckqn_def] planckqn_body_pointwise by blast
  qed
qed

lemma derivative_on_grid:
  assumes "f \<in> set (map snd (dplancktype sc))"
  shows "\<exists>(body :: (dbl, dbl) flat_body) g. f = (\<lambda>x y. fst (on_grid body x y))
            \<and> (\<forall>spec temp. fst (body spec temp) = map2 g spec temp)"
proof -
  have e: "\<And>h body. (\<And>x y. h x y = fst (on_grid body x y))
             \<Longrightarrow> h = (\<lambda>x y. fst (on_grid body x y))"
    by (intro ext) simp
  from assms consider
      "f = dplnckel sc" | "f = dplnckef sc" | "f = dplncken sc"
    | "f = dplnckql sc" | "f = dplnckqf sc" | "f = dplnckqn sc"
    by (auto simp: dplancktype_def)
  then show ?thesis
  proof cases
    case 1 then show ?thesis using e [of "dplnckel sc", OF dplnckel_def] dplnckel_body_pointwise by blast
  next
    case 2 then show ?thesis using e [of "dplnckef sc", OF dplnckef_def] dplnckef_body_pointwise by blast
  next
    case 3 then show ?thesis using e [of "dplncken sc", OF dplncken_def] dplncken_body_pointwise by blast
  next
    case 4 then show ?thesis using e [of "dplnckql sc", OF dplnckql_def] dplnckql_body_pointwise by blast
  next
    case 5 then show ?thesis using e [of "dplnckqf sc", OF dplnckqf_def] dplnckqf_body_pointwise by blast
  next
    case 6 then show ?thesis using e [of "dplnckqn sc", OF dplnckqn_def] dplnckqn_body_pointwise by blast
  qed
qed

lemma unknown_selector_on_array:
  assumes "ty \<notin> {''el'', ''ef'', ''en'', ''ql'', ''qf'', ''qn''}"
  shows "planck sc (NdArray xs) temperature ty
           = Inr (NdArr [length xs] (replicate (length xs) (- 1)))"
    and "dplanck sc (NdArray xs) temperature ty
           = Inr (NdArr [length xs] (replicate (length xs) (Fin (- 1))))"
    and "planck sc (NpFloat x) temperature ty = Inr (NdArr [] [- 1])"
    and "dplanck sc (NpFloat x) temperature ty = Inr (NdArr [] [Fin (- 1)])"
  using assms
  by (simp_all add: planck_def dplanck_def plancktype_def dplancktype_def keys_def np_ones_def
        uminus_dbl_def one_dbl_def)

lemma trapz_product:
  assumes "length r = length x" "length b = length x"
  shows "bcast_mul r b = Inr (map2 (\<lambda>u v. u * v) r b)"
    and "trapz (map2 (\<lambda>u v. u * v) r b) x = Inr (trapezoid_rule x (\<lambda>i. r ! i * b ! i))"
proof -
  show "bcast_mul r b = Inr (map2 (\<lambda>u v. u * v) r b)"
    using assms by (simp add: bcast_mul_def)
  have l: "length (map2 (\<lambda>u v. u * v) r b) = length x" using assms by simp
  have "trapezoid_rule x (\<lambda>i. map2 (\<lambda>u v. u * v) r b ! i) = trapezoid_rule x (\<lambda>i. r ! i * b ! i)"
    unfolding trapezoid_rule_def
    using assms by (intro sum.cong) (auto simp: less_diff_conv)
  with trapz_sum [OF l] show "trapz (map2 (\<lambda>u v. u * v) r b) x
      = Inr (trapezoid_rule x (\<lambda>i. r ! i * b ! i))" by simp
qed


section \<open>The exitance evaluators\<close>

text \<open>
  C1. For each of the six exitance functions and each pair of a spectral index \<open>i\<close>
  and a temperature index \<open>j\<close> of strictly positive inputs, the call succeeds and
  the element of the result at \<open>(i, j)\<close> is 0 when the exponent of that pair is at
  least 709.7, and otherwise the Planck formula of the domain: c1 over the fifth or
  fourth power of the wavelength, or c1 times the third or second power of the
  wavenumber or frequency, over \<open>exp x - 1\<close>. The statement is per element, so one
  result can hold guarded and unguarded elements side by side.
\<close>

theorem exitance_guard_and_formula:
  assumes "valid_constants sc"
    and "\<forall>s \<in> set (np_array spectral). 0 < s"
    and "\<forall>t \<in> set (np_array temperature). 0 < t"
    and i: "i < length (np_array spectral)"
    and j: "j < length (np_array temperature)"
  shows
   "(let s = np_array spectral ! i; t = np_array temperature ! j; C = pconst sc in
      (\<exists>r. planckel sc spectral temperature = Inr r \<and> result_at r i j =
         (if c2l C / (s * t) \<ge> explimit then 0
          else c1el C / (s ^ 5 * (exp (c2l C / (s * t)) - 1))))
    \<and> (\<exists>r. planckql sc spectral temperature = Inr r \<and> result_at r i j =
         (if c2l C / (s * t) \<ge> explimit then 0
          else c1ql C / (s ^ 4 * (exp (c2l C / (s * t)) - 1))))
    \<and> (\<exists>r. plancken sc spectral temperature = Inr r \<and> result_at r i j =
         (if c2n C * s / t \<ge> explimit then 0
          else c1en C * s ^ 3 / (exp (c2n C * s / t) - 1)))
    \<and> (\<exists>r. planckqn sc spectral temperature = Inr r \<and> result_at r i j =
         (if c2n C * s / t \<ge> explimit then 0
          else c1qn C * s ^ 2 / (exp (c2n C * s / t) - 1)))
    \<and> (\<exists>r. planckef sc spectral temperature = Inr r \<and> result_at r i j =
         (if c2f C * s / t \<ge> explimit then 0
          else c1ef C * s ^ 3 / (exp (c2f C * s / t) - 1)))
    \<and> (\<exists>r. planckqf sc spectral temperature = Inr r \<and> result_at r i j =
         (if c2f C * s / t \<ge> explimit then 0
          else c1nf C * s ^ 2 / (exp (c2f C * s / t) - 1))))"
proof -
  note el = on_grid_elem [OF planckel_body_pointwise i j, of sc]
  note ql = on_grid_elem [OF planckql_body_pointwise i j, of sc]
  note en = on_grid_elem [OF plancken_body_pointwise i j, of sc]
  note qn = on_grid_elem [OF planckqn_body_pointwise i j, of sc]
  note ef = on_grid_elem [OF planckef_body_pointwise i j, of sc]
  note qf = on_grid_elem [OF planckqf_body_pointwise i j, of sc]
  have 1: "\<And>a b c::real. (a / b) / c = a / (c * b)" by simp
  show ?thesis
    unfolding Let_def planckel_def planckql_def plancken_def planckqn_def planckef_def planckqf_def
    apply (intro conjI)
    subgoal using el by (auto simp: not_less 1)
    subgoal using ql by (auto simp: not_less 1)
    subgoal using en by (auto simp: not_less)
    subgoal using qn by (auto simp: not_less)
    subgoal using ef by (auto simp: not_less)
    subgoal using qf by (auto simp: not_less)
    done
qed

theorem exitance_guard_and_formula_witness:
  "valid_constants codata2010
   \<and> np_array (NdArray [1 / 10, 100]) = [1 / 10, 100]
   \<and> np_array (PyFloat 100) = [100]
   \<and> (0::nat) < length (np_array (NdArray [1 / 10, 100]))
   \<and> (1::nat) < length (np_array (NdArray [1 / 10, 100]))
   \<and> (0::nat) < length (np_array (PyFloat 100))
   \<and> (\<exists>r. planckel codata2010 (NdArray [1 / 10, 100]) (PyFloat 100) = Inr r
          \<and> result_at r 0 0 = 0
          \<and> result_at r 1 0 = c1el (pconst codata2010)
               / (100 ^ 5 * (exp (c2l (pconst codata2010) / (100 * 100)) - 1)))"
proof -
  have h1: "valid_constants codata2010"
    by (simp add: valid_constants_def codata2010_def)
  have h2: "\<forall>s \<in> set (np_array (NdArray [1 / 10, 100])). 0 < s" by simp
  have h3: "\<forall>t \<in> set (np_array (PyFloat 100)). 0 < t" by simp
  have i0: "(0::nat) < length (np_array (NdArray [1 / 10, 100]))" by simp
  have i1: "(1::nat) < length (np_array (NdArray [1 / 10, 100]))" by simp
  have j0: "(0::nat) < length (np_array (PyFloat 100))" by simp
  have g0: "c2l (pconst codata2010) / (1 / 10 * 100) \<ge> explimit"
    by (simp add: c2_codata explimit_def)
  have g1: "\<not> c2l (pconst codata2010) / (100 * 100) \<ge> explimit"
    by (simp add: c2_codata explimit_def)
  from exitance_guard_and_formula [OF h1 h2 h3 i0 j0] g0
  obtain r where r: "planckel codata2010 (NdArray [1 / 10, 100]) (PyFloat 100) = Inr r"
    "result_at r 0 0 = 0" by (auto simp: Let_def)
  from exitance_guard_and_formula [OF h1 h2 h3 i1 j0] g1 r(1)
  have "result_at r 1 0 = c1el (pconst codata2010)
               / (100 ^ 5 * (exp (c2l (pconst codata2010) / (100 * 100)) - 1))"
    by (auto simp: Let_def)
  with h1 i0 i1 j0 r show ?thesis by simp
qed

section \<open>The arguments of the exponential in the exitance path\<close>

text \<open>
  C4. The claim is that no exitance evaluator applies the exponential to an exponent
  of 709.7 or more. Five of the six evaluators clamp (lemma
  \<open>exitance_exp_args_clamped\<close>). The function plancken computes the clamped
  exponent and then takes the exponential of the unclamped one: for the wavenumber
  1000 per centimetre at 1 kelvin the exponential is called with about 1438.8, although
  the returned value is still 0.
\<close>

theorem plancken_exp_unclamped:
  "exp_args_of (plancken_body codata2010) (PyFloat 1000) (PyFloat 1)
     = [c2n (pconst codata2010) * (1000 / 1)]
   \<and> explimit \<le> c2n (pconst codata2010) * (1000 / 1)
   \<and> plancken codata2010 (PyFloat 1000) (PyFloat 1) = Inr (RScalar 0)"
proof -
  have g: "explimit \<le> c2n (pconst codata2010) * (1000 / 1)"
    by (simp add: c2_codata explimit_def)
  have a: "exp_args_of (plancken_body codata2010) (PyFloat 1000) (PyFloat 1)
     = [c2n (pconst codata2010) * (1000 / 1)]"
    by (simp add: exp_args_of_def on_grid_def meshgrid_def ravel_def plancken_body_def
          np_exp_def np_where_def Let_def)
  have b: "plancken codata2010 (PyFloat 1000) (PyFloat 1) = Inr (RScalar 0)"
    using g
    by (simp add: plancken_def on_grid_def meshgrid_def ravel_def plancken_body_def
          np_exp_def np_where_def Let_def unflatten_def)
  from g a b show ?thesis by blast
qed

section \<open>The temperature derivatives\<close>




section \<open>Stefan-Boltzmann law\<close>

text \<open>
  C7. For every temperature, the selector e gives sigmae times the fourth power of the
  temperature, the selector q gives sigmaq times its third power, and every other
  selector string gives the sentinel -1. The function is total: no selector and no
  temperature leads to an error.
\<close>

theorem stefanboltzman_cases:
  "stefanboltzman sc T ''e'' = sigmae (pconst sc) * T ^ 4
   \<and> stefanboltzman sc T ''q'' = sigmaq (pconst sc) * T ^ 3
   \<and> (ty \<noteq> ''e'' \<and> ty \<noteq> ''q'' \<longrightarrow> stefanboltzman sc T ty = - 1)"
  by (simp add: stefanboltzman_def)

theorem stefanboltzman_cases_witness:
  "stefanboltzman codata2010 300 ''e'' = sigmae (pconst codata2010) * 300 ^ 4
   \<and> stefanboltzman codata2010 300 ''q'' = sigmaq (pconst codata2010) * 300 ^ 3
   \<and> ''x'' \<noteq> ''e'' \<and> ''x'' \<noteq> ''q''
   \<and> stefanboltzman codata2010 300 ''x'' = - 1"
  using stefanboltzman_cases [of codata2010 300 "''x''"] by simp

section \<open>The shape of the results\<close>

text \<open>
  C2, as the code has it. What decides the shape of a result is not whether an
  argument was a number or a sequence, but whether it holds exactly one value. For each
  of the twelve evaluators: when the spectral argument and the temperature both hold
  one value (a number, or a list or array of one element), the result is a bare
  number; when the temperature holds one value and the spectral argument \<open>N\<close>
  values, \<open>N\<close> not 1, the result is a rank-1 array of length \<open>N\<close> whose element
  \<open>i\<close> is the evaluator at the \<open>i\<close>-th spectral value; when the temperature
  holds \<open>M\<close> values, \<open>M\<close> at least 2, and the spectral argument \<open>N\<close> values,
  \<open>N\<close> not 1, the result is a rank-2 array of shape \<open>(N, M)\<close> whose element
  \<open>(i, j)\<close> is the evaluator at the \<open>i\<close>-th spectral value and the
  \<open>j\<close>-th temperature: the spectral variable runs along axis 0.
\<close>

theorem evaluator_shape_contract:
  assumes "f \<in> set (map snd (plancktype sc))"
    and "g \<in> set (map snd (dplancktype sc))"
  shows "(let S = np_array spectral; T = np_array temperature; N = length S; M = length T in
      (N = 1 \<and> M = 1 \<longrightarrow>
         (\<exists>v. f spectral temperature = Inr (RScalar v))
       \<and> (\<exists>v. g spectral temperature = Inr (RScalar v)))
    \<and> (N \<noteq> 1 \<and> M = 1 \<longrightarrow>
         (\<exists>d. f spectral temperature = Inr (NdArr [N] d) \<and> length d = N
            \<and> (\<forall>i<N. f (PyFloat (S ! i)) (PyFloat (T ! 0)) = Inr (RScalar (d ! i))))
       \<and> (\<exists>d. g spectral temperature = Inr (NdArr [N] d) \<and> length d = N
            \<and> (\<forall>i<N. g (PyFloat (S ! i)) (PyFloat (T ! 0)) = Inr (RScalar (d ! i)))))
    \<and> (N \<noteq> 1 \<and> 2 \<le> M \<longrightarrow>
         (\<exists>d. f spectral temperature = Inr (NdArr [N, M] d) \<and> length d = N * M
            \<and> (\<forall>i<N. \<forall>j<M. f (PyFloat (S ! i)) (PyFloat (T ! j))
                   = Inr (RScalar (d ! (i * M + j)))))
       \<and> (\<exists>d. g spectral temperature = Inr (NdArr [N, M] d) \<and> length d = N * M
            \<and> (\<forall>i<N. \<forall>j<M. g (PyFloat (S ! i)) (PyFloat (T ! j))
                   = Inr (RScalar (d ! (i * M + j)))))))"
proof -
  from exitance_on_grid [OF assms(1)] obtain body :: "(real, real) flat_body" and w where
    f: "f = (\<lambda>x y. fst (on_grid body x y))"
    and pw: "\<And>spec temp. fst (body spec temp) = map2 w spec temp" by blast
  from derivative_on_grid [OF assms(2)] obtain dbody :: "(dbl, dbl) flat_body" and dw where
    g: "g = (\<lambda>x y. fst (on_grid dbody x y))"
    and dpw: "\<And>spec temp. fst (dbody spec temp) = map2 dw spec temp" by blast
  note a = on_grid_shape [OF pw, of spectral temperature, unfolded Let_def]
  note b = on_grid_shape [OF dpw, of spectral temperature, unfolded Let_def]
  show ?thesis unfolding Let_def f g using a b by blast
qed

theorem evaluator_shape_contract_witness:
  "planckel codata2010 \<in> set (map snd (plancktype codata2010))
   \<and> dplnckqn codata2010 \<in> set (map snd (dplancktype codata2010))
   \<and> length (np_array (NdArray [1, 2, 3])) \<noteq> 1
   \<and> 2 \<le> length (np_array (PyList [300, 400]))
   \<and> (\<exists>d. planckel codata2010 (NdArray [1, 2, 3]) (PyList [300, 400]) = Inr (NdArr [3, 2] d)
          \<and> length d = 6
          \<and> planckel codata2010 (PyFloat 3) (PyFloat 300) = Inr (RScalar (d ! 4)))
   \<and> (\<exists>d. dplnckqn codata2010 (NdArray [1, 2, 3]) (PyList [300, 400]) = Inr (NdArr [3, 2] d)
          \<and> length d = 6
          \<and> dplnckqn codata2010 (PyFloat 3) (PyFloat 300) = Inr (RScalar (d ! 4)))
   \<and> (\<exists>d. planckel codata2010 (NdArray [1, 2, 3]) (PyList [300]) = Inr (NdArr [3] d))
   \<and> (\<exists>d. dplnckqn codata2010 (NdArray [1, 2, 3]) (PyList [300]) = Inr (NdArr [3] d))
   \<and> (\<exists>v. planckel codata2010 (PyList [2]) (PyFloat 300) = Inr (RScalar v))
   \<and> (\<exists>v. dplnckqn codata2010 (PyList [2]) (PyFloat 300) = Inr (RScalar v))"
proof -
  have m: "planckel codata2010 \<in> set (map snd (plancktype codata2010))"
    by (simp add: plancktype_def)
  have dm: "dplnckqn codata2010 \<in> set (map snd (dplancktype codata2010))"
    by (simp add: dplancktype_def)
  have N: "length (np_array (NdArray [1, 2, 3])) = 3" by simp
  have M: "length (np_array (PyList [300, 400])) = 2" by simp
  have S: "np_array (NdArray [1, 2, 3]) ! 2 = 3" by simp
  have T: "np_array (PyList [300, 400]) ! 0 = 300" by simp
  have i2: "(2::nat) < 3" and j0: "(0::nat) < 2" by simp_all
  note t = evaluator_shape_contract [OF m dm, of "NdArray [1, 2, 3]" "PyList [300, 400]",
             unfolded Let_def N M]
  from t obtain d where d: "planckel codata2010 (NdArray [1, 2, 3]) (PyList [300, 400])
        = Inr (NdArr [3, 2] d)" "length d = 3 * 2"
     and e: "\<forall>i<3. \<forall>j<2. planckel codata2010 (PyFloat (np_array (NdArray [1, 2, 3]) ! i))
                  (PyFloat (np_array (PyList [300, 400]) ! j)) = Inr (RScalar (d ! (i * 2 + j)))"
    by auto
  from e i2 j0 have "planckel codata2010 (PyFloat (np_array (NdArray [1, 2, 3]) ! 2))
                  (PyFloat (np_array (PyList [300, 400]) ! 0)) = Inr (RScalar (d ! (2 * 2 + 0)))"
    by blast
  then have "planckel codata2010 (PyFloat 3) (PyFloat 300) = Inr (RScalar (d ! 4))"
    unfolding S T by simp
  then have a: "\<exists>d. planckel codata2010 (NdArray [1, 2, 3]) (PyList [300, 400])
          = Inr (NdArr [3, 2] d) \<and> length d = 6
          \<and> planckel codata2010 (PyFloat 3) (PyFloat 300) = Inr (RScalar (d ! 4))"
    using d by auto
  from t obtain d' where d': "dplnckqn codata2010 (NdArray [1, 2, 3]) (PyList [300, 400])
        = Inr (NdArr [3, 2] d')" "length d' = 3 * 2"
     and e': "\<forall>i<3. \<forall>j<2. dplnckqn codata2010 (PyFloat (np_array (NdArray [1, 2, 3]) ! i))
                  (PyFloat (np_array (PyList [300, 400]) ! j)) = Inr (RScalar (d' ! (i * 2 + j)))"
    by auto
  from e' i2 j0 have "dplnckqn codata2010 (PyFloat (np_array (NdArray [1, 2, 3]) ! 2))
                  (PyFloat (np_array (PyList [300, 400]) ! 0)) = Inr (RScalar (d' ! (2 * 2 + 0)))"
    by blast
  then have "dplnckqn codata2010 (PyFloat 3) (PyFloat 300) = Inr (RScalar (d' ! 4))"
    unfolding S T by simp
  then have a': "\<exists>d. dplnckqn codata2010 (NdArray [1, 2, 3]) (PyList [300, 400])
          = Inr (NdArr [3, 2] d) \<and> length d = 6
          \<and> dplnckqn codata2010 (PyFloat 3) (PyFloat 300) = Inr (RScalar (d ! 4))"
    using d' by auto
  note u = evaluator_shape_contract [OF m dm, of "NdArray [1, 2, 3]" "PyList [300]"]
  have b: "\<exists>d. planckel codata2010 (NdArray [1, 2, 3]) (PyList [300]) = Inr (NdArr [3] d)"
    using u by (auto simp: Let_def)
  have b': "\<exists>d. dplnckqn codata2010 (NdArray [1, 2, 3]) (PyList [300]) = Inr (NdArr [3] d)"
    using u by (auto simp: Let_def)
  note w = evaluator_shape_contract [OF m dm, of "PyList [2]" "PyFloat 300"]
  have c: "\<exists>v. planckel codata2010 (PyList [2]) (PyFloat 300) = Inr (RScalar v)"
    using w by (auto simp: Let_def)
  have c': "\<exists>v. dplnckqn codata2010 (PyList [2]) (PyFloat 300) = Inr (RScalar v)"
    using w by (auto simp: Let_def)
  from m dm N M a a' b b' c c' show ?thesis by simp
qed

text \<open>
  The claim as stated fails for a spectral list of one element with a number as
  temperature: the result is a bare number, of shape \<open>()\<close>, and not a rank-1
  array of length 1.
\<close>

theorem one_element_list_gives_scalar:
  "map_sum id shape (planckel codata2010 (PyList [2]) (PyFloat 300)) = Inr []
   \<and> map_sum id shape (planckel codata2010 (PyList [2]) (PyFloat 300)) \<noteq> Inr [1]"
  by (simp add: planckel_def on_grid_fst meshgrid_def ravel_def unflatten_def
        planckel_body_pointwise)

text \<open>
  One spectral value with a temperature sequence of length \<open>M\<close>, \<open>M\<close> not 1,
  gives the rank-2 shape \<open>(1, M)\<close>, where the module's documentation announces a
  rank-1 array.
\<close>

lemma scalar_spectral_vector_temperature_shape:
  assumes "f \<in> set (map snd (plancktype sc))"
    and "g \<in> set (map snd (dplancktype sc))"
    and "length (np_array spectral) = 1" "length (np_array temperature) \<noteq> 1"
  shows "\<exists>d. f spectral temperature = Inr (NdArr [1, length (np_array temperature)] d)"
    and "\<exists>d. g spectral temperature = Inr (NdArr [1, length (np_array temperature)] d)"
proof -
  from exitance_on_grid [OF assms(1)] obtain body :: "(real, real) flat_body" and w where
    f: "f = (\<lambda>x y. fst (on_grid body x y))"
    and pw: "\<And>spec temp. fst (body spec temp) = map2 w spec temp" by blast
  show "\<exists>d. f spectral temperature = Inr (NdArr [1, length (np_array temperature)] d)"
    using on_grid_row_shape [OF pw assms(3,4)] unfolding f .
  from derivative_on_grid [OF assms(2)] obtain dbody :: "(dbl, dbl) flat_body" and dw where
    g: "g = (\<lambda>x y. fst (on_grid dbody x y))"
    and dpw: "\<And>spec temp. fst (dbody spec temp) = map2 dw spec temp" by blast
  show "\<exists>d. g spectral temperature = Inr (NdArr [1, length (np_array temperature)] d)"
    using on_grid_row_shape [OF dpw assms(3,4)] unfolding g .
qed

lemma planckel_scalar_spectral_two_temperatures:
  "map_sum id shape (planckel codata2010 (PyFloat 2) (PyList [300, 400])) = Inr [1, 2]"
  using scalar_spectral_vector_temperature_shape(1)
          [of "planckel codata2010" codata2010 "dplnckel codata2010" "PyFloat 2"
              "PyList [300, 400]"]
  by (auto simp: plancktype_def dplancktype_def)

section \<open>Dispatch by selector\<close>

text \<open>
  C6. For each of the six selectors el, ef, en, ql, qf, qn and all arguments,
  \<open>planck\<close> returns what the exitance function of that name returns, and
  \<open>dplanck\<close> what the derivative function of that name returns.
\<close>

theorem dispatch_equals_direct:
  "planck sc spectral temperature ''el'' = planckel sc spectral temperature
   \<and> planck sc spectral temperature ''ef'' = planckef sc spectral temperature
   \<and> planck sc spectral temperature ''en'' = plancken sc spectral temperature
   \<and> planck sc spectral temperature ''ql'' = planckql sc spectral temperature
   \<and> planck sc spectral temperature ''qf'' = planckqf sc spectral temperature
   \<and> planck sc spectral temperature ''qn'' = planckqn sc spectral temperature
   \<and> dplanck sc spectral temperature ''el'' = dplnckel sc spectral temperature
   \<and> dplanck sc spectral temperature ''ef'' = dplnckef sc spectral temperature
   \<and> dplanck sc spectral temperature ''en'' = dplncken sc spectral temperature
   \<and> dplanck sc spectral temperature ''ql'' = dplnckql sc spectral temperature
   \<and> dplanck sc spectral temperature ''qf'' = dplnckqf sc spectral temperature
   \<and> dplanck sc spectral temperature ''qn'' = dplnckqn sc spectral temperature"
  by (simp add: planck_def dplanck_def plancktype_def dplancktype_def keys_def)

theorem dispatch_equals_direct_witness:
  "planck codata2010 (NdArray [1, 2]) (PyFloat 300) ''qn''
     = planckqn codata2010 (NdArray [1, 2]) (PyFloat 300)
   \<and> dplanck codata2010 (NdArray [1, 2]) (PyFloat 300) ''ef''
     = dplnckef codata2010 (NdArray [1, 2]) (PyFloat 300)"
  using dispatch_equals_direct [of codata2010 "NdArray [1, 2]" "PyFloat 300"] by simp

text \<open>
  C5. The claim is that an unknown selector gives an array of -1 of the shape of the
  spectral argument, without an exception, for every spectral argument that the
  evaluators accept. For a numpy array or scalar it does (lemma
  \<open>unknown_selector_on_array\<close>). A Python number or list, which every evaluator
  accepts and the module's documentation names as arguments, has no attribute
  \<open>shape\<close>: with the selector zz both dispatchers raise AttributeError, where the
  evaluator planckel on the same arguments returns a value.
\<close>

theorem unknown_selector_scalar_raises:
  "planck codata2010 (PyFloat 5) (PyFloat 300) ''zz'' = Inl AttributeError
   \<and> dplanck codata2010 (PyFloat 5) (PyFloat 300) ''zz'' = Inl AttributeError
   \<and> planck codata2010 (PyList [5, 6]) (PyFloat 300) ''zz'' = Inl AttributeError
   \<and> dplanck codata2010 (PyList [5, 6]) (PyFloat 300) ''zz'' = Inl AttributeError
   \<and> planckel codata2010 (PyFloat 5) (PyFloat 300) \<noteq> Inl AttributeError"
  by (simp add: planck_def dplanck_def plancktype_def dplancktype_def keys_def
        planckel_def on_grid_fst meshgrid_def ravel_def unflatten_def planckel_body_pointwise)

section \<open>The Stefan-Boltzmann constants of the table\<close>

text \<open>
  C9, as the code has it. The radiant constant sigmae of the table is the tabulated
  value \<open>sigma\<close> of the constants library; it is not computed from h, c and k. The
  photon-rate constant sigmaq is \<open>4 pi zeta3 k^3 / (h^3 c^2)\<close>, with zeta3 the
  literal 1.2020569031595942853.
\<close>

theorem stefan_boltzmann_constants:
  "sigmae (pconst sc) = const_sigma sc
   \<and> zeta3 (pconst sc) = 1.2020569031595942853
   \<and> sigmaq (pconst sc) = 4 * pi * zeta3 (pconst sc) * const_k sc ^ 3
                              / (const_h sc ^ 3 * const_c sc ^ 2)"
  by (simp add: pconst_def PlanckConstants_init_def Let_def)

theorem stefan_boltzmann_constants_witness:
  "sigmae (pconst codata2010) = 5.670373 / 10 ^ 8
   \<and> sigmaq (pconst codata2010) = 4 * pi * 1.2020569031595942853 * (1.3806488 / 10 ^ 23) ^ 3
                              / ((6.62606957 / 10 ^ 34) ^ 3 * 299792458 ^ 2)"
proof -
  have "const_sigma codata2010 = 5.670373 / 10 ^ 8" "const_k codata2010 = 1.3806488 / 10 ^ 23"
    "const_h codata2010 = 6.62606957 / 10 ^ 34" "const_c codata2010 = 299792458"
    by (simp_all add: codata2010_def)
  then show ?thesis using stefan_boltzmann_constants [of codata2010] by metis
qed

text \<open>
  With the CODATA 2010 values, sigmae is not \<open>pi^4 k^4 / (15 h^3 c^2)\<close>: that
  expression is below 2.4e-8, and sigmae is 5.670373e-8.
\<close>

theorem sigmae_not_from_formula:
  "sigmae (pconst codata2010)
     \<noteq> pi ^ 4 * const_k codata2010 ^ 4 / (15 * const_h codata2010 ^ 3 * const_c codata2010 ^ 2)"
proof -
  let ?q = "const_k codata2010 ^ 4 / (15 * const_h codata2010 ^ 3 * const_c codata2010 ^ 2)"
  have q0: "0 < ?q" by (simp add: codata2010_def)
  have "pi ^ 4 < 4 ^ 4" using pi_less_4 pi_gt_zero by (intro power_strict_mono) simp_all
  then have "pi ^ 4 * ?q < 4 ^ 4 * ?q" using q0 by (simp only: mult_strict_right_mono)
  also have "4 ^ 4 * ?q < sigmae (pconst codata2010)"
    by (simp add: pconst_def PlanckConstants_init_def Let_def codata2010_def power_divide)
  finally show ?thesis by simp
qed

section \<open>Chromaticity coordinates\<close>

text \<open>
  C8. For arrays of equal length, chromaticityforSpectralL returns the triple of
  \<open>X / (X + Y + Z)\<close>, \<open>Y / (X + Y + Z)\<close> and \<open>Y\<close>, where \<open>X\<close>, \<open>Y\<close>,
  \<open>Z\<close> are the trapezoidal integrals over the spectral grid of the radiance times
  xbar, ybar and zbar. The third element is the integral \<open>Y\<close> itself. When
  \<open>X + Y + Z\<close> is 0, the first two elements are not-a-number or infinite, and the
  call still returns.
\<close>

theorem chromaticity_triple:
  assumes "length radiance = length spectral" "length xbar = length spectral"
    and "length ybar = length spectral" "length zbar = length spectral"
  shows "(let X = trapezoid_rule spectral (\<lambda>i. radiance ! i * xbar ! i);
              Y = trapezoid_rule spectral (\<lambda>i. radiance ! i * ybar ! i);
              Z = trapezoid_rule spectral (\<lambda>i. radiance ! i * zbar ! i) in
          \<exists>x y. chromaticityforSpectralL spectral radiance xbar ybar zbar = Inr (x, y, Finite Y)
            \<and> (X + Y + Z \<noteq> 0 \<longrightarrow> x = Finite (X / (X + Y + Z)) \<and> y = Finite (Y / (X + Y + Z)))
            \<and> (X + Y + Z = 0 \<longrightarrow> x \<in> {NaN, Infinite} \<and> y \<in> {NaN, Infinite}))"
proof -
  note px = trapz_product [OF assms(1) assms(2)]
  note py = trapz_product [OF assms(1) assms(3)]
  note pz = trapz_product [OF assms(1) assms(4)]
  show ?thesis
    by (simp add: chromaticityforSpectralL_def px py pz Let_def np_divide_def)
qed

theorem chromaticity_triple_witness:
  "length [1, 1 :: real] = length [1, 3 :: real]
   \<and> chromaticityforSpectralL [1, 3] [1, 1] [1, 1] [1, 1] [1, 1]
        = Inr (Finite (1 / 3), Finite (1 / 3), Finite 2)
   \<and> (\<exists>x y. chromaticityforSpectralL [1, 3] [0, 0] [1, 1] [1, 1] [1, 1] = Inr (x, y, Finite 0)
          \<and> x \<in> {NaN, Infinite} \<and> y \<in> {NaN, Infinite})"
proof -
  have l: "length [1, 1 :: real] = length [1, 3 :: real]"
       "length [0, 0 :: real] = length [1, 3 :: real]" by simp_all
  have t1: "trapezoid_rule [1, 3] (\<lambda>i. [1, 1] ! i * [1, 1] ! i) = 2"
    by (simp add: trapezoid_rule_def)
  have t0: "trapezoid_rule [1, 3] (\<lambda>i. [0, 0] ! i * [1, 1] ! i) = 0"
    by (simp add: trapezoid_rule_def)
  have a: "chromaticityforSpectralL [1, 3] [1, 1] [1, 1] [1, 1] [1, 1]
        = Inr (Finite (1 / 3), Finite (1 / 3), Finite 2)"
    using chromaticity_triple [OF l(1) l(1) l(1) l(1)] by (auto simp: Let_def t1)
  have b: "\<exists>x y. chromaticityforSpectralL [1, 3] [0, 0] [1, 1] [1, 1] [1, 1] = Inr (x, y, Finite 0)
          \<and> x \<in> {NaN, Infinite} \<and> y \<in> {NaN, Infinite}"
    using chromaticity_triple [OF l(2) l(1) l(1) l(1)] by (simp add: Let_def t0)
  from l(1) a b show ?thesis by blast
qed


end
